theory Spec2Isabelle
  imports Complex_Main "HOL-Library.Product_Lexorder" "HOL-Library.Multiset"
begin

section \<open>Timestamps\<close>

text \<open>
  The exporter handles timestamps as naive \<^verbatim>\<open>datetime\<close> objects of Python's standard
  library. A \<^verbatim>\<open>datetime\<close> is its seven calendar fields; two of them are compared
  field by field, from the year down to the microsecond, which is the lexicographic order
  on \<open>dt_key\<close>.
\<close>

record datetime =
  year :: nat
  month :: nat
  day :: nat
  hour :: nat
  minute :: nat
  second :: nat
  microsecond :: nat

type_synonym dt_fields = "nat \<times> nat \<times> nat \<times> nat \<times> nat \<times> nat \<times> nat"

definition dt_key :: "datetime \<Rightarrow> dt_fields" where
  "dt_key d = (year d, month d, day d, hour d, minute d, second d, microsecond d)"

definition dt_le :: "datetime \<Rightarrow> datetime \<Rightarrow> bool" where
  "dt_le a b \<longleftrightarrow> dt_key a \<le> dt_key b"

definition dt_lt :: "datetime \<Rightarrow> datetime \<Rightarrow> bool" where
  "dt_lt a b \<longleftrightarrow> dt_key a < dt_key b"

text \<open>
  The constructor \<^verbatim>\<open>datetime(year, month, day, hour, minute, second, microsecond)\<close>,
  for fields in range.
\<close>

definition datetime_of :: "nat \<Rightarrow> nat \<Rightarrow> nat \<Rightarrow> nat \<Rightarrow> nat \<Rightarrow> nat \<Rightarrow> nat \<Rightarrow> datetime" where
  "datetime_of y m d H M S us =
     \<lparr>year = y, month = m, day = d, hour = H, minute = M, second = S, microsecond = us\<rparr>"

subsection \<open>Differences of timestamps\<close>

text \<open>
  \<^verbatim>\<open>end_datetime - start_datetime\<close> is a \<^verbatim>\<open>timedelta\<close>. The standard library
  computes it from the day ordinals of the two dates, the seconds since midnight and the
  microseconds, and the \<^verbatim>\<open>timedelta\<close> constructor normalises the three parts so that
  \<open>0 \<le> seconds < 86400\<close> and \<open>0 \<le> microseconds < 10^6\<close>. A Python \<^verbatim>\<open>datetime\<close>
  always has \<open>1 \<le> month \<le> 12\<close> (its constructor checks it), so the table of days
  before a month is read in range; for a month beyond the table, which no
  \<^verbatim>\<open>datetime\<close> has, \<open>days_before_month\<close> counts no day.
\<close>

definition is_leap :: "nat \<Rightarrow> bool" where
  "is_leap y \<longleftrightarrow> y mod 4 = 0 \<and> (y mod 100 \<noteq> 0 \<or> y mod 400 = 0)"

definition days_before_year :: "nat \<Rightarrow> int" where
  "days_before_year y = (let p = int y - 1 in p * 365 + p div 4 - p div 100 + p div 400)"

definition DAYS_BEFORE_MONTH :: "int list" where
  "DAYS_BEFORE_MONTH = [-1, 0, 31, 59, 90, 120, 151, 181, 212, 243, 273, 304, 334]"

definition days_before_month :: "nat \<Rightarrow> nat \<Rightarrow> int" where
  "days_before_month y m =
     (if m < length DAYS_BEFORE_MONTH then DAYS_BEFORE_MONTH ! m else 0)
       + (if m > 2 \<and> is_leap y then 1 else 0)"

definition toordinal :: "datetime \<Rightarrow> int" where
  "toordinal d = days_before_year (year d) + days_before_month (year d) (month d) + int (day d)"

record timedelta =
  days :: int
  seconds :: int
  microseconds :: int

definition timedelta_of :: "int \<Rightarrow> int \<Rightarrow> int \<Rightarrow> timedelta" where
  "timedelta_of d s us =
     (let total = (d * 86400 + s) * 1000000 + us
      in \<lparr>days = total div 86400000000,
          seconds = (total mod 86400000000) div 1000000,
          microseconds = total mod 1000000\<rparr>)"

definition datetime_sub :: "datetime \<Rightarrow> datetime \<Rightarrow> timedelta" where
  "datetime_sub a b =
     (let days1 = toordinal a;
          days2 = toordinal b;
          secs1 = int (second a) + int (minute a) * 60 + int (hour a) * 3600;
          secs2 = int (second b) + int (minute b) * 60 + int (hour b) * 3600
      in timedelta_of (days1 - days2) (secs1 - secs2)
           (int (microsecond a) - int (microsecond b)))"

text \<open>
  \<^verbatim>\<open>total_seconds()\<close> and the division by \<^verbatim>\<open>3600 * 24\<close> are floating-point
  divisions in Python; here they are divisions of rational numbers, so the rounding of
  the two divisions is left out of the model.
\<close>

definition total_seconds :: "timedelta \<Rightarrow> rat" where
  "total_seconds td =
     of_int ((days td * 86400 + seconds td) * 1000000 + microseconds td) / 1000000"

subsection \<open>Formatting\<close>

text \<open>
  \<^verbatim>\<open>strftime("%m/%d/%Y %H:%M:%S")\<close>: decimal fields padded with zeros, two digits
  each and four for the year.
\<close>

definition digit_char :: "nat \<Rightarrow> char" where
  "digit_char n = ''0123456789'' ! (n mod 10)"

fun string_of_nat :: "nat \<Rightarrow> string" where
  "string_of_nat n =
     (if n < 10 then [digit_char n] else string_of_nat (n div 10) @ [digit_char n])"

definition zero_pad :: "nat \<Rightarrow> nat \<Rightarrow> string" where
  "zero_pad w n = replicate (w - length (string_of_nat n)) (CHR ''0'') @ string_of_nat n"

definition strftime_gsheet :: "datetime \<Rightarrow> string" where
  "strftime_gsheet d =
     zero_pad 2 (month d) @ ''/'' @ zero_pad 2 (day d) @ ''/'' @ zero_pad 4 (year d) @ '' '' @
     zero_pad 2 (hour d) @ '':'' @ zero_pad 2 (minute d) @ '':'' @ zero_pad 2 (second d)"

definition format_datetime_for_gsheet :: "datetime option \<Rightarrow> string option" where
  "format_datetime_for_gsheet datetime_obj =
     (case datetime_obj of None \<Rightarrow> None | Some d \<Rightarrow> Some (strftime_gsheet d))"

section \<open>The transition detector\<close>

text \<open>
  An event is a pair \<open>(label, created_at)\<close>. \<^verbatim>\<open>find_events_dates_changes\<close> is one
  \<^verbatim>\<open>for\<close> loop over the events with two variables, \<^verbatim>\<open>start_datetime\<close> and
  \<^verbatim>\<open>end_datetime\<close>, both \<^verbatim>\<open>None\<close> at first. \<open>scan_events\<close> is that loop:
  its last argument is the current \<^verbatim>\<open>start_datetime\<close>; \<^verbatim>\<open>end_datetime\<close> is
  assigned only together with the \<^verbatim>\<open>break\<close>, so it is \<open>None\<close> when the list runs out.
  The test for the final label comes first, as in the source.
\<close>

type_synonym event = "string \<times> datetime"

fun scan_events :: "event list \<Rightarrow> string \<Rightarrow> string \<Rightarrow> datetime option
    \<Rightarrow> datetime option \<times> datetime option" where
  "scan_events [] starting_label final_label start_datetime = (start_datetime, None)"
| "scan_events ((lbl, created) # events) starting_label final_label start_datetime =
     (if lbl = final_label then (start_datetime, Some created)
      else if lbl = starting_label
        then scan_events events starting_label final_label (Some created)
      else scan_events events starting_label final_label start_datetime)"

definition find_events_dates_changes :: "event list \<Rightarrow> string \<Rightarrow> string
    \<Rightarrow> datetime option \<times> datetime option" where
  "find_events_dates_changes events starting_label final_label =
     scan_events events starting_label final_label None"

text \<open>
  For the statement of what the detector returns: the timestamp of the last event of a
  list that carries a given label, if there is one.
\<close>

definition latest_occurrence :: "string \<Rightarrow> event list \<Rightarrow> datetime option" where
  "latest_occurrence l events =
     (case filter (\<lambda>e. fst e = l) events of
        [] \<Rightarrow> None
      | e # es \<Rightarrow> Some (snd (last (e # es))))"

section \<open>Module constants\<close>

text \<open>
  The module-level constants that the report functions read. \<^verbatim>\<open>LABELS\<close> is a
  dictionary from label names to display names, kept as an association list in the order
  of the literal (its keys are distinct, as a dictionary's are); \<^verbatim>\<open>LABEL_TRANSITIONS\<close>
  is a tuple of pairs. The functions below take the module state as their first argument
  and only read it.
\<close>

definition LABEL_DOING :: string where
  "LABEL_DOING = ''status::Doing''"

definition LABEL_REVIEW :: string where
  "LABEL_REVIEW = ''status::Review''"

definition LABEL_READY_FOR_QA :: string where
  "LABEL_READY_FOR_QA = ''status::Ready for Final QA''"

definition LABEL_WAITING_FOR_PROD :: string where
  "LABEL_WAITING_FOR_PROD = ''status::Waiting for PROD''"

definition LABEL_RELEASED :: string where
  "LABEL_RELEASED = ''status::Released''"

record module_state =
  LABELS :: "(string \<times> string) list"
  LABEL_TRANSITIONS :: "(string \<times> string) list"

definition module_init :: module_state where
  "module_init =
     \<lparr>LABELS =
        [(LABEL_DOING, ''Doing''),
         (LABEL_REVIEW, ''Review''),
         (LABEL_READY_FOR_QA, ''QA''),
         (LABEL_WAITING_FOR_PROD, ''Waiting for Prod''),
         (LABEL_RELEASED, ''Released'')],
      LABEL_TRANSITIONS =
        [(LABEL_DOING, LABEL_REVIEW),
         (LABEL_REVIEW, LABEL_READY_FOR_QA),
         (LABEL_READY_FOR_QA, LABEL_WAITING_FOR_PROD),
         (LABEL_WAITING_FOR_PROD, LABEL_RELEASED),
         (LABEL_DOING, LABEL_RELEASED)]\<rparr>"

section \<open>Label events of an issue\<close>

text \<open>
  What the tracker's client returns. A label event carries a label descriptor, which may
  be \<^verbatim>\<open>None\<close> (here the descriptor is its \<^verbatim>\<open>"name"\<close> entry), and the creation time as
  a string. An issue has an internal \<^verbatim>\<open>id\<close>, the number \<^verbatim>\<open>iid\<close> shown to users, and
  its label events; a project has a name and its issues.
\<close>

record label_event =
  label :: "string option"
  created_at :: string

record issue =
  issue_id :: int
  iid :: int
  resourcelabelevents :: "label_event list"

record project =
  name :: string
  issues :: "issue list"

datatype error = ValueError | KeyError | IndexError

text \<open>
  \<^verbatim>\<open>parse_datetime\<close> strips every trailing \<^verbatim>\<open>Z\<close> and hands the rest to
  \<^verbatim>\<open>datetime.fromisoformat\<close>, a function of the standard library that is a parameter
  here: it returns \<open>None\<close> where Python raises \<^verbatim>\<open>ValueError\<close>.
\<close>

definition rstrip_Z :: "string \<Rightarrow> string" where
  "rstrip_Z s = rev (dropWhile (\<lambda>c. c = CHR ''Z'') (rev s))"

definition parse_datetime :: "(string \<Rightarrow> datetime option) \<Rightarrow> string \<Rightarrow> error + datetime" where
  "parse_datetime fromisoformat datetime_str =
     (case fromisoformat (rstrip_Z datetime_str) of
        None \<Rightarrow> Inl ValueError
      | Some d \<Rightarrow> Inr d)"

text \<open>
  The list comprehension of \<^verbatim>\<open>find_issue_dates_changes\<close>: the condition is evaluated
  before the element, so the time of an event that is dropped is never parsed.
\<close>

definition relevant :: "module_state \<Rightarrow> label_event \<Rightarrow> bool" where
  "relevant g ev =
     (case label ev of
        None \<Rightarrow> False
      | Some nm \<Rightarrow> nm \<in> set (map fst (LABELS g)))"

fun relevant_events :: "module_state \<Rightarrow> (string \<Rightarrow> datetime option) \<Rightarrow> label_event list
    \<Rightarrow> error + event list" where
  "relevant_events g fromisoformat [] = Inr []"
| "relevant_events g fromisoformat (ev # evs) =
     (if relevant g ev then
        (case parse_datetime fromisoformat (created_at ev) of
           Inl e \<Rightarrow> Inl e
         | Inr d \<Rightarrow>
            (case relevant_events g fromisoformat evs of
               Inl e \<Rightarrow> Inl e
             | Inr events \<Rightarrow> Inr ((the (label ev), d) # events)))
      else relevant_events g fromisoformat evs)"

text \<open>
  \<^verbatim>\<open>sorted(events, key=operator.itemgetter(1))\<close> is a stable sort on the timestamps, as
  \<open>sort_key\<close> is.
\<close>

definition sorted_events :: "module_state \<Rightarrow> (string \<Rightarrow> datetime option) \<Rightarrow> label_event list
    \<Rightarrow> error + event list" where
  "sorted_events g fromisoformat raw =
     (case relevant_events g fromisoformat raw of
        Inl e \<Rightarrow> Inl e
      | Inr events \<Rightarrow> Inr (sort_key (\<lambda>e. dt_key (snd e)) events))"

section \<open>The window filter and the transitions of an issue\<close>

text \<open>
  \<open>window_filter\<close> is the \<^verbatim>\<open>if\<close> statement in the body of the loop over
  \<^verbatim>\<open>LABEL_TRANSITIONS\<close>, applied to the detector's result. A \<^verbatim>\<open>datetime\<close> is always
  true in a condition, so \<^verbatim>\<open>start_datetime and end_datetime\<close> says that neither is
  \<^verbatim>\<open>None\<close>; the comparison is the chained \<^verbatim>\<open>start_date <= end_datetime < end_date\<close>.
\<close>

definition window_filter :: "datetime option \<times> datetime option \<Rightarrow> datetime \<Rightarrow> datetime
    \<Rightarrow> datetime option \<times> datetime option" where
  "window_filter r start_date end_date =
     (let (start_datetime, end_datetime) = r in
      if start_datetime \<noteq> None \<and> end_datetime \<noteq> None \<and>
         \<not> (dt_le start_date (the end_datetime) \<and> dt_lt (the end_datetime) end_date)
      then (None, None)
      else (start_datetime, end_datetime))"

definition find_issue_dates_changes :: "module_state \<Rightarrow> (string \<Rightarrow> datetime option) \<Rightarrow> issue
    \<Rightarrow> datetime \<Rightarrow> datetime \<Rightarrow> error + (datetime option \<times> datetime option) list" where
  "find_issue_dates_changes g fromisoformat i start_date end_date =
     (case sorted_events g fromisoformat (resourcelabelevents i) of
        Inl e \<Rightarrow> Inl e
      | Inr events \<Rightarrow>
          Inr (map (\<lambda>(starting_label, final_label).
                      window_filter
                        (find_events_dates_changes events starting_label final_label)
                        start_date end_date)
                 (LABEL_TRANSITIONS g)))"

section \<open>Rows of the report\<close>

text \<open>
  A cell of the table is what Python puts in the list: a string, a float, an integer or
  \<^verbatim>\<open>None\<close>. \<open>truthy\<close> is Python's truth value of a cell, which \<^verbatim>\<open>any\<close> tests.
\<close>

datatype cell = CellNone | CellStr string | CellFloat rat | CellInt int

fun truthy :: "cell \<Rightarrow> bool" where
  "truthy CellNone = False"
| "truthy (CellStr s) = (s \<noteq> [])"
| "truthy (CellFloat x) = (x \<noteq> 0)"
| "truthy (CellInt n) = (n \<noteq> 0)"

definition str_cell :: "string option \<Rightarrow> cell" where
  "str_cell v = (case v of None \<Rightarrow> CellNone | Some s \<Rightarrow> CellStr s)"

definition transition_cells :: "datetime option \<times> datetime option \<Rightarrow> cell list" where
  "transition_cells r =
     (let (start_datetime, end_datetime) = r in
      if start_datetime = None \<or> end_datetime = None
      then [CellStr [], CellStr [], CellStr []]
      else [str_cell (format_datetime_for_gsheet start_datetime),
            str_cell (format_datetime_for_gsheet end_datetime),
            CellFloat (total_seconds (datetime_sub (the end_datetime) (the start_datetime))
                         / (3600 * 24))])"

text \<open>
  The body of the loop over the issues of a project: \<open>None\<close> is the \<^verbatim>\<open>continue\<close> that
  skips the issue. The progress message printed every hundred issues does not change what
  is returned and is left out.
\<close>

definition issue_row :: "module_state \<Rightarrow> (string \<Rightarrow> datetime option) \<Rightarrow> issue
    \<Rightarrow> datetime \<Rightarrow> datetime \<Rightarrow> error + cell list option" where
  "issue_row g fromisoformat i start_date end_date =
     (case find_issue_dates_changes g fromisoformat i start_date end_date of
        Inl e \<Rightarrow> Inl e
      | Inr date_changes \<Rightarrow>
          (let issue_values = concat (map transition_cells date_changes) in
           if \<not> list_ex truthy issue_values then Inr None
           else Inr (Some (CellInt (iid i) # issue_values))))"

fun issues_rows :: "module_state \<Rightarrow> (string \<Rightarrow> datetime option) \<Rightarrow> issue list
    \<Rightarrow> datetime \<Rightarrow> datetime \<Rightarrow> error + cell list list" where
  "issues_rows g fromisoformat [] start_date end_date = Inr []"
| "issues_rows g fromisoformat (i # rest) start_date end_date =
     (case issue_row g fromisoformat i start_date end_date of
        Inl e \<Rightarrow> Inl e
      | Inr row \<Rightarrow>
          (case issues_rows g fromisoformat rest start_date end_date of
             Inl e \<Rightarrow> Inl e
           | Inr values \<Rightarrow>
               Inr (case row of None \<Rightarrow> values | Some issue_values \<Rightarrow> issue_values # values)))"

definition find_project_date_changes :: "module_state \<Rightarrow> (string \<Rightarrow> datetime option) \<Rightarrow> project
    \<Rightarrow> datetime \<Rightarrow> datetime \<Rightarrow> error + cell list list" where
  "find_project_date_changes g fromisoformat p start_date end_date =
     issues_rows g fromisoformat (issues p) start_date end_date"

section \<open>The report\<close>

text \<open>
  The header looks the display names up in \<^verbatim>\<open>LABELS\<close>; a label that is not a key
  raises \<^verbatim>\<open>KeyError\<close>. The projects are the ones the tracker returned for the configured
  identifiers, in the order of the configuration.
\<close>

fun header_cells :: "(string \<times> string) list \<Rightarrow> (string \<times> string) list \<Rightarrow> error + cell list" where
  "header_cells labels [] = Inr []"
| "header_cells labels ((starting_label, final_label) # rest) =
     (case map_of labels starting_label of
        None \<Rightarrow> Inl KeyError
      | Some a \<Rightarrow>
         (case map_of labels final_label of
            None \<Rightarrow> Inl KeyError
          | Some b \<Rightarrow>
             (case header_cells labels rest of
                Inl e \<Rightarrow> Inl e
              | Inr cells \<Rightarrow> Inr (CellStr a # CellStr b # CellStr ''Nb. days'' # cells))))"

definition report_header :: "module_state \<Rightarrow> error + cell list" where
  "report_header g =
     (case header_cells (LABELS g) (LABEL_TRANSITIONS g) of
        Inl e \<Rightarrow> Inl e
      | Inr cells \<Rightarrow> Inr (CellStr ''Project'' # CellStr ''Issue #'' # cells))"

fun projects_rows :: "module_state \<Rightarrow> (string \<Rightarrow> datetime option) \<Rightarrow> project list
    \<Rightarrow> datetime \<Rightarrow> datetime \<Rightarrow> error + cell list list" where
  "projects_rows g fromisoformat [] start_date end_date = Inr []"
| "projects_rows g fromisoformat (p # rest) start_date end_date =
     (case find_project_date_changes g fromisoformat p start_date end_date of
        Inl e \<Rightarrow> Inl e
      | Inr project_values \<Rightarrow>
          (case projects_rows g fromisoformat rest start_date end_date of
             Inl e \<Rightarrow> Inl e
           | Inr values \<Rightarrow> Inr (map (\<lambda>v. CellStr (name p) # v) project_values @ values)))"

definition report_values :: "module_state \<Rightarrow> (string \<Rightarrow> datetime option) \<Rightarrow> project list
    \<Rightarrow> datetime \<Rightarrow> datetime \<Rightarrow> error + cell list list" where
  "report_values g fromisoformat projects start_date end_date =
     (case report_header g of
        Inl e \<Rightarrow> Inl e
      | Inr header \<Rightarrow>
          (case projects_rows g fromisoformat projects start_date end_date of
             Inl e \<Rightarrow> Inl e
           | Inr values \<Rightarrow> Inr (header # values)))"

section \<open>Writing to the sheet\<close>

text \<open>
  \<^verbatim>\<open>write_to_gsheet\<close> counts rows and columns, gets or creates the tab, and calls
  \<^verbatim>\<open>worksheet.update\<close> with a range in A1 notation and the values. The model returns
  the arguments of that call. \<^verbatim>\<open>values[0]\<close> and \<^verbatim>\<open>string.ascii_uppercase[nb_cols]\<close>
  raise \<^verbatim>\<open>IndexError\<close> out of range.
\<close>

definition ascii_uppercase :: string where
  "ascii_uppercase = ''ABCDEFGHIJKLMNOPQRSTUVWXYZ''"

definition write_to_gsheet :: "cell list list \<Rightarrow> error + string \<times> cell list list" where
  "write_to_gsheet values =
     (let nb_rows = length values in
      case values of
        [] \<Rightarrow> Inl IndexError
      | first_row # _ \<Rightarrow>
          (let nb_cols = length first_row in
           if nb_cols < length ascii_uppercase
           then Inr (''A1:'' @ [ascii_uppercase ! nb_cols] @ string_of_nat nb_rows, values)
           else Inl IndexError))"

definition generate_label_report :: "module_state \<Rightarrow> (string \<Rightarrow> datetime option) \<Rightarrow> project list
    \<Rightarrow> datetime \<Rightarrow> datetime \<Rightarrow> error + string \<times> cell list list" where
  "generate_label_report g fromisoformat projects start_date end_date =
     (case report_values g fromisoformat projects start_date end_date of
        Inl e \<Rightarrow> Inl e
      | Inr values \<Rightarrow> write_to_gsheet values)"

subsection \<open>Defaults of the command's options\<close>

text \<open>
  The defaults of \<^verbatim>\<open>--start-date\<close> and \<^verbatim>\<open>--end-date\<close> are computed from
  \<^verbatim>\<open>date.today()\<close>. A calendar date is its day ordinal here, so that subtracting
  \<^verbatim>\<open>timedelta(days=30)\<close> is subtracting 30; today's date is an argument.
\<close>

definition start_date_default :: "int \<Rightarrow> int" where
  "start_date_default today = today - 30"

definition end_date_default :: "int \<Rightarrow> int" where
  "end_date_default today = today"

section \<open>Notions used in the statements\<close>

text \<open>
  An instant as a count of microseconds, and the seconds from one instant to another:
  the elapsed time of a transition is stated with them.
\<close>

definition instant_microseconds :: "datetime \<Rightarrow> int" where
  "instant_microseconds d =
     (toordinal d * 86400 + int (hour d) * 3600 + int (minute d) * 60 + int (second d)) * 1000000
       + int (microsecond d)"

definition seconds_between :: "datetime \<Rightarrow> datetime \<Rightarrow> rat" where
  "seconds_between s e = of_int (instant_microseconds e - instant_microseconds s) / 1000000"

text \<open>A blank cell is the empty string; a row is blank when all its cells are.\<close>

definition blank_row :: "cell list \<Rightarrow> bool" where
  "blank_row cells \<longleftrightarrow> (\<forall>c \<in> set cells. c = CellStr [])"

text \<open>
  The cells of the transitions of an issue, three for each transition, before the issue
  number is put in front (no cell when the events of the issue cannot be read).
\<close>

definition issue_cells :: "module_state \<Rightarrow> (string \<Rightarrow> datetime option) \<Rightarrow> issue
    \<Rightarrow> datetime \<Rightarrow> datetime \<Rightarrow> cell list" where
  "issue_cells g fromisoformat i start_date end_date =
     (case find_issue_dates_changes g fromisoformat i start_date end_date of
        Inl e \<Rightarrow> []
      | Inr date_changes \<Rightarrow> concat (map transition_cells date_changes))"

text \<open>
  The events the normalizer is to keep: those with a label descriptor whose name is one
  of the five status labels.
\<close>

definition recognised_label :: "label_event \<Rightarrow> bool" where
  "recognised_label ev \<longleftrightarrow>
     (\<exists>nm \<in> {''status::Doing'', ''status::Review'', ''status::Ready for Final QA'',
              ''status::Waiting for PROD'', ''status::Released''}. label ev = Some nm)"


section \<open>Example data\<close>

text \<open>
  A small project for the concrete instances below: \<open>example_fromisoformat\<close> is
  \<^verbatim>\<open>datetime.fromisoformat\<close> on the strings that occur in it and fails elsewhere. The
  first issue moved from Doing to Review and has two events that are not status changes,
  listed out of order; the second issue has no status event at all.
\<close>

definition example_fromisoformat :: "string \<Rightarrow> datetime option" where
  "example_fromisoformat =
     map_of [(''2024-01-05T09:00:00.000'', datetime_of 2024 1 5 9 0 0 0),
             (''2024-01-08T15:30:00.000'', datetime_of 2024 1 8 15 30 0 0),
             (''2024-01-06T11:00:00.000'', datetime_of 2024 1 6 11 0 0 0)]"

definition example_issue_moved :: issue where
  "example_issue_moved =
     \<lparr>issue_id = 5001, iid = 12,
      resourcelabelevents =
        [\<lparr>label = Some ''status::Review'', created_at = ''2024-01-08T15:30:00.000Z''\<rparr>,
         \<lparr>label = Some ''bug'', created_at = ''yesterday''\<rparr>,
         \<lparr>label = None, created_at = ''2024-01-06T11:00:00.000Z''\<rparr>,
         \<lparr>label = Some ''status::Doing'', created_at = ''2024-01-05T09:00:00.000Z''\<rparr>]\<rparr>"

definition example_issue_idle :: issue where
  "example_issue_idle =
     \<lparr>issue_id = 5002, iid = 13,
      resourcelabelevents =
        [\<lparr>label = Some ''bug'', created_at = ''2024-01-06T11:00:00.000Z''\<rparr>]\<rparr>"

definition example_project :: project where
  "example_project = \<lparr>name = ''exporter'', issues = [example_issue_moved, example_issue_idle]\<rparr>"

definition example_start_date :: datetime where
  "example_start_date = datetime_of 2024 1 1 0 0 0 0"

definition example_end_date :: datetime where
  "example_end_date = datetime_of 2024 1 31 0 0 0 0"

section \<open>Properties of the transition detector\<close>

lemma latest_occurrence_Nil: "latest_occurrence l [] = None"
  by (simp add: latest_occurrence_def)

lemma latest_occurrence_absent:
  "l \<notin> fst ` set events \<Longrightarrow> latest_occurrence l events = None"
proof -
  assume "l \<notin> fst ` set events"
  then have "filter (\<lambda>e. fst e = l) events = []"
    by (auto simp: filter_empty_conv)
  then show ?thesis by (simp add: latest_occurrence_def)
qed

lemma latest_occurrence_Cons:
  "latest_occurrence l ((lbl, created) # events) =
     (case latest_occurrence l events of
        Some t \<Rightarrow> Some t
      | None \<Rightarrow> if lbl = l then Some created else None)"
  by (simp add: latest_occurrence_def split: list.splits)

lemma scan_events_no_final:
  "final_label \<notin> fst ` set events \<Longrightarrow>
   scan_events events starting_label final_label acc =
     (case latest_occurrence starting_label events of Some t \<Rightarrow> Some t | None \<Rightarrow> acc, None)"
proof (induction events arbitrary: acc)
  case Nil
  then show ?case by (simp add: latest_occurrence_Nil)
next
  case (Cons e events)
  obtain lbl created where e: "e = (lbl, created)" by (cases e)
  from Cons.prems have nf: "final_label \<notin> fst ` set events" and ne: "lbl \<noteq> final_label"
    by (auto simp: e)
  show ?case
    using Cons.IH [OF nf] ne
    by (simp add: e latest_occurrence_Cons split: option.splits)
qed

lemma scan_events_first_final:
  "final_label \<notin> fst ` set pre \<Longrightarrow>
   scan_events (pre @ (final_label, t) # post) starting_label final_label acc =
     (case latest_occurrence starting_label pre of Some t' \<Rightarrow> Some t' | None \<Rightarrow> acc, Some t)"
proof (induction pre arbitrary: acc)
  case Nil
  then show ?case by (simp add: latest_occurrence_Nil)
next
  case (Cons e pre)
  obtain lbl created where e: "e = (lbl, created)" by (cases e)
  from Cons.prems have nf: "final_label \<notin> fst ` set pre" and ne: "lbl \<noteq> final_label"
    by (auto simp: e)
  show ?case
    using Cons.IH [OF nf] ne
    by (simp add: e latest_occurrence_Cons split: option.splits)
qed

text \<open>
  Claim C1. The detector returns as end the time of the first event, in scan order, that
  carries the final label, whatever comes after it, and as start the time of the latest
  event carrying the starting label among the events strictly before that one. If no
  event carries the final label, the end is absent and the start is the time of the latest
  event carrying the starting label in the whole sequence. If neither label occurs, both
  are absent. This holds for every sequence, sorted or not.
\<close>

theorem find_events_dates_changes_scan:
  "(final_label \<notin> fst ` set pre \<longrightarrow>
      find_events_dates_changes (pre @ (final_label, t) # post) starting_label final_label
        = (latest_occurrence starting_label pre, Some t)) \<and>
   (final_label \<notin> fst ` set events \<longrightarrow>
      find_events_dates_changes events starting_label final_label
        = (latest_occurrence starting_label events, None)) \<and>
   (starting_label \<notin> fst ` set others \<and> final_label \<notin> fst ` set others \<longrightarrow>
      find_events_dates_changes others starting_label final_label = (None, None))"
proof (intro conjI impI)
  assume "final_label \<notin> fst ` set pre"
  then show "find_events_dates_changes (pre @ (final_label, t) # post) starting_label final_label
      = (latest_occurrence starting_label pre, Some t)"
    by (simp add: find_events_dates_changes_def scan_events_first_final split: option.splits)
next
  assume "final_label \<notin> fst ` set events"
  then show "find_events_dates_changes events starting_label final_label
      = (latest_occurrence starting_label events, None)"
    by (simp add: find_events_dates_changes_def scan_events_no_final split: option.splits)
next
  assume "starting_label \<notin> fst ` set others \<and> final_label \<notin> fst ` set others"
  then show "find_events_dates_changes others starting_label final_label = (None, None)"
    by (simp add: find_events_dates_changes_def scan_events_no_final latest_occurrence_absent)
qed

theorem find_events_dates_changes_scan_witness:
  "LABEL_REVIEW \<notin> fst ` set [(LABEL_DOING, datetime_of 2024 1 1 9 0 0 0)] \<and>
   find_events_dates_changes
     [(LABEL_DOING, datetime_of 2024 1 1 9 0 0 0),
      (LABEL_REVIEW, datetime_of 2024 1 2 9 0 0 0),
      (LABEL_DOING, datetime_of 2024 1 3 9 0 0 0),
      (LABEL_REVIEW, datetime_of 2024 1 4 9 0 0 0)] LABEL_DOING LABEL_REVIEW
     = (Some (datetime_of 2024 1 1 9 0 0 0), Some (datetime_of 2024 1 2 9 0 0 0)) \<and>
   LABEL_REVIEW \<notin> fst ` set [(LABEL_DOING, datetime_of 2024 1 1 9 0 0 0),
      (LABEL_RELEASED, datetime_of 2024 1 2 9 0 0 0),
      (LABEL_DOING, datetime_of 2024 1 3 9 0 0 0)] \<and>
   find_events_dates_changes
     [(LABEL_DOING, datetime_of 2024 1 1 9 0 0 0),
      (LABEL_RELEASED, datetime_of 2024 1 2 9 0 0 0),
      (LABEL_DOING, datetime_of 2024 1 3 9 0 0 0)] LABEL_DOING LABEL_REVIEW
     = (Some (datetime_of 2024 1 3 9 0 0 0), None) \<and>
   LABEL_DOING \<notin> fst ` set [(LABEL_RELEASED, datetime_of 2024 1 2 9 0 0 0)] \<and>
   LABEL_REVIEW \<notin> fst ` set [(LABEL_RELEASED, datetime_of 2024 1 2 9 0 0 0)] \<and>
   find_events_dates_changes [(LABEL_RELEASED, datetime_of 2024 1 2 9 0 0 0)]
     LABEL_DOING LABEL_REVIEW = (None, None)"
  using find_events_dates_changes_scan
    [where final_label = LABEL_REVIEW and starting_label = LABEL_DOING
       and pre = "[(LABEL_DOING, datetime_of 2024 1 1 9 0 0 0)]"
       and t = "datetime_of 2024 1 2 9 0 0 0"
       and post = "[(LABEL_DOING, datetime_of 2024 1 3 9 0 0 0),
                    (LABEL_REVIEW, datetime_of 2024 1 4 9 0 0 0)]"
       and events = "[(LABEL_DOING, datetime_of 2024 1 1 9 0 0 0),
                      (LABEL_RELEASED, datetime_of 2024 1 2 9 0 0 0),
                      (LABEL_DOING, datetime_of 2024 1 3 9 0 0 0)]"
       and others = "[(LABEL_RELEASED, datetime_of 2024 1 2 9 0 0 0)]"]
  by (simp add: latest_occurrence_def LABEL_DOING_def LABEL_REVIEW_def LABEL_RELEASED_def)

section \<open>Properties of the window filter\<close>

text \<open>
  Claim C2. With both start and end present, the pair is kept unchanged when
  \<open>start_date \<le> end < end_date\<close> and both fields are nulled otherwise. An end equal to
  \<open>end_date\<close> is outside the window, so the pair is nulled; an end equal to
  \<open>start_date\<close> is inside it (the window \<open>[start_date, end_date)\<close> being non-empty), so
  the pair is kept. A pair with an absent field is returned as it is.
\<close>

theorem window_filter_cases:
  "(dt_le start_date e \<and> dt_lt e end_date \<longrightarrow>
      window_filter (Some s, Some e) start_date end_date = (Some s, Some e)) \<and>
   (\<not> (dt_le start_date e' \<and> dt_lt e' end_date) \<longrightarrow>
      window_filter (Some s, Some e') start_date end_date = (None, None)) \<and>
   window_filter (Some s, Some end_date) start_date end_date = (None, None) \<and>
   (dt_lt start_date end_date \<longrightarrow>
      window_filter (Some s, Some start_date) start_date end_date = (Some s, Some start_date)) \<and>
   (a = None \<or> b = None \<longrightarrow> window_filter (a, b) start_date end_date = (a, b))"
  by (auto simp: window_filter_def dt_le_def dt_lt_def)

theorem window_filter_cases_witness:
  "dt_le (datetime_of 2024 1 1 0 0 0 0) (datetime_of 2024 1 15 10 30 0 0) \<and>
   dt_lt (datetime_of 2024 1 15 10 30 0 0) (datetime_of 2024 1 31 0 0 0 0) \<and>
   window_filter (Some (datetime_of 2023 12 20 8 0 0 0), Some (datetime_of 2024 1 15 10 30 0 0))
       (datetime_of 2024 1 1 0 0 0 0) (datetime_of 2024 1 31 0 0 0 0)
     = (Some (datetime_of 2023 12 20 8 0 0 0), Some (datetime_of 2024 1 15 10 30 0 0)) \<and>
   \<not> (dt_le (datetime_of 2024 1 1 0 0 0 0) (datetime_of 2024 2 2 0 0 0 0) \<and>
      dt_lt (datetime_of 2024 2 2 0 0 0 0) (datetime_of 2024 1 31 0 0 0 0)) \<and>
   window_filter (Some (datetime_of 2023 12 20 8 0 0 0), Some (datetime_of 2024 2 2 0 0 0 0))
       (datetime_of 2024 1 1 0 0 0 0) (datetime_of 2024 1 31 0 0 0 0)
     = (None, None) \<and>
   window_filter (Some (datetime_of 2023 12 20 8 0 0 0), Some (datetime_of 2024 1 31 0 0 0 0))
       (datetime_of 2024 1 1 0 0 0 0) (datetime_of 2024 1 31 0 0 0 0)
     = (None, None) \<and>
   dt_lt (datetime_of 2024 1 1 0 0 0 0) (datetime_of 2024 1 31 0 0 0 0) \<and>
   window_filter (Some (datetime_of 2023 12 20 8 0 0 0), Some (datetime_of 2024 1 1 0 0 0 0))
       (datetime_of 2024 1 1 0 0 0 0) (datetime_of 2024 1 31 0 0 0 0)
     = (Some (datetime_of 2023 12 20 8 0 0 0), Some (datetime_of 2024 1 1 0 0 0 0)) \<and>
   window_filter (None, Some (datetime_of 2024 2 2 0 0 0 0))
       (datetime_of 2024 1 1 0 0 0 0) (datetime_of 2024 1 31 0 0 0 0)
     = (None, Some (datetime_of 2024 2 2 0 0 0 0))"
  using window_filter_cases
    [where start_date = "datetime_of 2024 1 1 0 0 0 0"
       and end_date = "datetime_of 2024 1 31 0 0 0 0"
       and s = "datetime_of 2023 12 20 8 0 0 0"
       and e = "datetime_of 2024 1 15 10 30 0 0"
       and e' = "datetime_of 2024 2 2 0 0 0 0"
       and a = None
       and b = "Some (datetime_of 2024 2 2 0 0 0 0)"]
  by (simp add: dt_le_def dt_lt_def dt_key_def datetime_of_def)

section \<open>Order of start and end\<close>

lemma scan_events_ordered:
  "sorted (map (\<lambda>e. dt_key (snd e)) events) \<Longrightarrow>
   (\<forall>a. acc = Some a \<longrightarrow> (\<forall>e \<in> set events. dt_key a \<le> dt_key (snd e))) \<Longrightarrow>
   scan_events events starting_label final_label acc = (Some a, Some b) \<Longrightarrow>
   dt_key a \<le> dt_key b"
proof (induction events arbitrary: acc)
  case Nil
  then show ?case by simp
next
  case (Cons e events)
  obtain lbl created where e: "e = (lbl, created)" by (cases e)
  from Cons.prems(1) have srt: "sorted (map (\<lambda>e. dt_key (snd e)) events)"
    and low: "\<forall>x \<in> set events. dt_key created \<le> dt_key (snd x)"
    by (auto simp: e)
  show ?case
  proof (cases "lbl = final_label")
    case True
    with Cons.prems(3) have "acc = Some a" and "b = created"
      by (simp_all add: e)
    with Cons.prems(2) show ?thesis by (simp add: e)
  next
    case notfinal: False
    show ?thesis
    proof (cases "lbl = starting_label")
      case True
      with notfinal Cons.prems(3)
      have "scan_events events starting_label final_label (Some created) = (Some a, Some b)"
        by (simp add: e)
      with Cons.IH [OF srt, of "Some created"] low show ?thesis by simp
    next
      case False
      with notfinal Cons.prems(3)
      have "scan_events events starting_label final_label acc = (Some a, Some b)"
        by (simp add: e)
      moreover from Cons.prems(2)
      have "\<forall>a. acc = Some a \<longrightarrow> (\<forall>e \<in> set events. dt_key a \<le> dt_key (snd e))"
        by simp
      ultimately show ?thesis using Cons.IH [OF srt] by blast
    qed
  qed
qed

text \<open>
  Claim C5. On a sequence of events sorted ascending by timestamp, a start and an end
  returned together for a transition satisfy \<open>start \<le> end\<close>.
\<close>

theorem find_events_dates_changes_start_le_end:
  "sorted (map (\<lambda>e. dt_key (snd e)) events) \<Longrightarrow>
   find_events_dates_changes events starting_label final_label = (Some a, Some b) \<Longrightarrow>
   dt_le a b"
  unfolding find_events_dates_changes_def dt_le_def
  by (rule scan_events_ordered [where acc = None]) simp_all

theorem find_events_dates_changes_start_le_end_witness:
  "sorted (map (\<lambda>e. dt_key (snd e))
      [(LABEL_DOING, datetime_of 2024 1 1 9 0 0 0),
       (LABEL_DOING, datetime_of 2024 1 2 9 0 0 0),
       (LABEL_REVIEW, datetime_of 2024 1 2 9 0 0 500)]) \<and>
   find_events_dates_changes
      [(LABEL_DOING, datetime_of 2024 1 1 9 0 0 0),
       (LABEL_DOING, datetime_of 2024 1 2 9 0 0 0),
       (LABEL_REVIEW, datetime_of 2024 1 2 9 0 0 500)] LABEL_DOING LABEL_REVIEW
     = (Some (datetime_of 2024 1 2 9 0 0 0), Some (datetime_of 2024 1 2 9 0 0 500)) \<and>
   dt_le (datetime_of 2024 1 2 9 0 0 0) (datetime_of 2024 1 2 9 0 0 500)"
proof -
  have srt: "sorted (map (\<lambda>e. dt_key (snd e))
      [(LABEL_DOING, datetime_of 2024 1 1 9 0 0 0),
       (LABEL_DOING, datetime_of 2024 1 2 9 0 0 0),
       (LABEL_REVIEW, datetime_of 2024 1 2 9 0 0 500)])"
    by (simp add: dt_key_def datetime_of_def)
  have res: "find_events_dates_changes
      [(LABEL_DOING, datetime_of 2024 1 1 9 0 0 0),
       (LABEL_DOING, datetime_of 2024 1 2 9 0 0 0),
       (LABEL_REVIEW, datetime_of 2024 1 2 9 0 0 500)] LABEL_DOING LABEL_REVIEW
     = (Some (datetime_of 2024 1 2 9 0 0 0), Some (datetime_of 2024 1 2 9 0 0 500))"
    by (simp add: find_events_dates_changes_def LABEL_DOING_def LABEL_REVIEW_def)
  from find_events_dates_changes_start_le_end [OF srt res] srt res show ?thesis
    by simp
qed

section \<open>Elapsed days\<close>

lemma timedelta_of_total:
  "(days (timedelta_of d s us) * 86400 + seconds (timedelta_of d s us)) * 1000000
     + microseconds (timedelta_of d s us) = (d * 86400 + s) * 1000000 + us"
proof -
  define T where "T = (d * 86400 + s) * 1000000 + us"
  have m: "T mod 1000000 = (T mod 86400000000) mod 1000000"
    by (simp add: mod_mod_cancel)
  have "(T div 86400000000 * 86400 + (T mod 86400000000) div 1000000) * 1000000 + T mod 1000000
      = T div 86400000000 * 86400000000
        + ((T mod 86400000000) div 1000000 * 1000000 + (T mod 86400000000) mod 1000000)"
    using m by (simp add: algebra_simps)
  also have "\<dots> = T" by simp
  finally show ?thesis
    by (simp add: timedelta_of_def T_def Let_def)
qed

lemma total_seconds_datetime_sub:
  "total_seconds (datetime_sub e s) = seconds_between s e"
  unfolding total_seconds_def timedelta_of_total datetime_sub_def Let_def
  by (simp add: seconds_between_def instant_microseconds_def algebra_simps)

lemma strftime_gsheet_nonempty: "strftime_gsheet d \<noteq> []"
  by (simp add: strftime_gsheet_def)

text \<open>
  Claim C3. When start and end are both present, the three cells of a transition are the
  formatted start, the formatted end and the seconds from start to end divided by 86400;
  from 2024-01-01 00:00:00 to 2024-01-02 12:00:00 that is 1.5. When start or end is absent
  the three cells are blank and no elapsed time is computed. (The quotient is a rational
  number here and a float in Python.)
\<close>

theorem transition_cells_elapsed_days:
  "transition_cells (Some s, Some e)
     = [CellStr (strftime_gsheet s), CellStr (strftime_gsheet e),
        CellFloat (seconds_between s e / 86400)] \<and>
   (a = None \<or> b = None \<longrightarrow> transition_cells (a, b) = [CellStr [], CellStr [], CellStr []]) \<and>
   transition_cells (Some (datetime_of 2024 1 1 0 0 0 0), Some (datetime_of 2024 1 2 12 0 0 0)) ! 2
     = CellFloat (3 / 2)"
proof (intro conjI impI)
  show full: "transition_cells (Some s, Some e)
     = [CellStr (strftime_gsheet s), CellStr (strftime_gsheet e),
        CellFloat (seconds_between s e / 86400)]" for s e
    by (simp add: transition_cells_def format_datetime_for_gsheet_def str_cell_def
        total_seconds_datetime_sub)
  show "transition_cells (a, b) = [CellStr [], CellStr [], CellStr []]" if "a = None \<or> b = None"
    using that by (auto simp: transition_cells_def)
  have "seconds_between (datetime_of 2024 1 1 0 0 0 0) (datetime_of 2024 1 2 12 0 0 0) = 129600"
    by (simp add: seconds_between_def instant_microseconds_def toordinal_def datetime_of_def
        days_before_year_def days_before_month_def DAYS_BEFORE_MONTH_def is_leap_def Let_def)
  then show "transition_cells (Some (datetime_of 2024 1 1 0 0 0 0),
      Some (datetime_of 2024 1 2 12 0 0 0)) ! 2 = CellFloat (3 / 2)"
    by (simp add: full)
qed

theorem transition_cells_elapsed_days_witness:
  "transition_cells (None, Some (datetime_of 2024 1 2 12 0 0 0))
     = [CellStr [], CellStr [], CellStr []] \<and>
   transition_cells (Some (datetime_of 2024 1 1 0 0 0 0), None)
     = [CellStr [], CellStr [], CellStr []]"
  using transition_cells_elapsed_days [where a = None and b = "Some (datetime_of 2024 1 2 12 0 0 0)"]
    transition_cells_elapsed_days [where a = "Some (datetime_of 2024 1 1 0 0 0 0)" and b = None]
  by simp

section \<open>Rows that are kept and rows that are skipped\<close>

lemma transition_cells_truthy:
  "list_ex truthy (transition_cells r) \<longleftrightarrow> \<not> blank_row (transition_cells r)"
proof (cases r)
  case (Pair a b)
  show ?thesis
  proof (cases "a = None \<or> b = None")
    case True
    then show ?thesis by (auto simp: Pair transition_cells_def blank_row_def)
  next
    case False
    then obtain s e where "a = Some s" "b = Some e" by auto
    then show ?thesis
      by (simp add: Pair transition_cells_def blank_row_def format_datetime_for_gsheet_def
          str_cell_def strftime_gsheet_nonempty)
  qed
qed

lemma issue_values_truthy:
  "list_ex truthy (concat (map transition_cells date_changes))
     \<longleftrightarrow> \<not> blank_row (concat (map transition_cells date_changes))"
proof (induction date_changes)
  case Nil
  then show ?case by (simp add: blank_row_def)
next
  case (Cons r date_changes)
  have "blank_row (xs @ ys) \<longleftrightarrow> blank_row xs \<and> blank_row ys" for xs ys
    by (auto simp: blank_row_def)
  with Cons transition_cells_truthy [of r] show ?case
    by simp
qed

lemma issue_row_cells:
  "issue_row g fromisoformat i start_date end_date = Inr row \<Longrightarrow>
   row = (if blank_row (issue_cells g fromisoformat i start_date end_date) then None
          else Some (CellInt (iid i) # issue_cells g fromisoformat i start_date end_date))"
  by (auto simp: issue_row_def issue_cells_def issue_values_truthy Let_def
      split: sum.splits if_splits)

lemma issues_rows_table:
  "issues_rows g fromisoformat todo start_date end_date = Inr table \<Longrightarrow>
   table = map (\<lambda>i. CellInt (iid i) # issue_cells g fromisoformat i start_date end_date)
             (filter (\<lambda>i. \<not> blank_row (issue_cells g fromisoformat i start_date end_date)) todo)"
proof (induction todo arbitrary: table)
  case Nil
  then show ?case by simp
next
  case (Cons i rest)
  from Cons.prems obtain row others where
    row: "issue_row g fromisoformat i start_date end_date = Inr row" and
    others: "issues_rows g fromisoformat rest start_date end_date = Inr others" and
    table: "table = (case row of None \<Rightarrow> others | Some issue_values \<Rightarrow> issue_values # others)"
    by (auto split: sum.splits)
  from Cons.IH [OF others] issue_row_cells [OF row] table show ?case
    by simp
qed

text \<open>
  Claim C4. The table of a project has one row for each issue whose cells are not all
  blank, in the order of the issues, and none for an issue whose cells are all blank; a
  row is the issue's \<^verbatim>\<open>iid\<close>, the number shown to users, followed by the cells.
\<close>

theorem find_project_date_changes_rows:
  "find_project_date_changes g fromisoformat p start_date end_date = Inr table \<Longrightarrow>
   table = map (\<lambda>i. CellInt (iid i) # issue_cells g fromisoformat i start_date end_date)
             (filter (\<lambda>i. \<not> blank_row (issue_cells g fromisoformat i start_date end_date))
                (issues p))"
  unfolding find_project_date_changes_def by (rule issues_rows_table)

theorem find_project_date_changes_rows_witness:
  "find_project_date_changes module_init example_fromisoformat example_project
       example_start_date example_end_date
     = Inr [[CellInt 12, CellStr ''01/05/2024 09:00:00'', CellStr ''01/08/2024 15:30:00'',
             CellFloat (157 / 48),
             CellStr [], CellStr [], CellStr [], CellStr [], CellStr [], CellStr [],
             CellStr [], CellStr [], CellStr [], CellStr [], CellStr [], CellStr []]] \<and>
   \<not> blank_row (issue_cells module_init example_fromisoformat example_issue_moved
       example_start_date example_end_date) \<and>
   blank_row (issue_cells module_init example_fromisoformat example_issue_idle
       example_start_date example_end_date) \<and>
   [[CellInt 12, CellStr ''01/05/2024 09:00:00'', CellStr ''01/08/2024 15:30:00'',
     CellFloat (157 / 48),
     CellStr [], CellStr [], CellStr [], CellStr [], CellStr [], CellStr [],
     CellStr [], CellStr [], CellStr [], CellStr [], CellStr [], CellStr []]]
     = map (\<lambda>i. CellInt (iid i) # issue_cells module_init example_fromisoformat i
                   example_start_date example_end_date)
         (filter (\<lambda>i. \<not> blank_row (issue_cells module_init example_fromisoformat i
                          example_start_date example_end_date))
            (issues example_project))"
proof -
  have res: "find_project_date_changes module_init example_fromisoformat example_project
       example_start_date example_end_date
     = Inr [[CellInt 12, CellStr ''01/05/2024 09:00:00'', CellStr ''01/08/2024 15:30:00'',
             CellFloat (157 / 48),
             CellStr [], CellStr [], CellStr [], CellStr [], CellStr [], CellStr [],
             CellStr [], CellStr [], CellStr [], CellStr [], CellStr [], CellStr []]]"
    by code_simp
  have moved: "\<not> blank_row (issue_cells module_init example_fromisoformat example_issue_moved
       example_start_date example_end_date)"
    by code_simp
  have idle: "blank_row (issue_cells module_init example_fromisoformat example_issue_idle
       example_start_date example_end_date)"
    by code_simp
  from find_project_date_changes_rows [OF res] res moved idle show ?thesis
    by blast
qed

section \<open>The normalizer\<close>

lemma relevant_module_init: "relevant module_init ev \<longleftrightarrow> recognised_label ev"
  by (auto simp: relevant_def recognised_label_def module_init_def LABEL_DOING_def
      LABEL_REVIEW_def LABEL_READY_FOR_QA_def LABEL_WAITING_FOR_PROD_def LABEL_RELEASED_def
      split: option.splits)

lemma relevant_events_parsed:
  "\<forall>ev \<in> set raw. relevant g ev \<longrightarrow> fromisoformat (rstrip_Z (created_at ev)) \<noteq> None \<Longrightarrow>
   relevant_events g fromisoformat raw
     = Inr (map (\<lambda>ev. (the (label ev), the (fromisoformat (rstrip_Z (created_at ev)))))
              (filter (relevant g) raw))"
  by (induction raw) (auto simp: parse_datetime_def)

lemma relevant_events_filter:
  "relevant_events g fromisoformat (filter (relevant g) raw) = relevant_events g fromisoformat raw"
  by (induction raw) (auto split: sum.splits)

text \<open>
  Claim C6. When the times of the events to keep can be parsed, the normalizer returns a
  sequence sorted ascending by timestamp that holds exactly the events whose label
  descriptor is present with a name among the five status labels, each with its label
  name and parsed time. The other events have no influence: the transitions computed for
  an issue are those computed from its events with a recognised label alone.
\<close>

theorem sorted_events_normalizes:
  assumes "\<forall>ev \<in> set raw. recognised_label ev \<longrightarrow> fromisoformat (rstrip_Z (created_at ev)) \<noteq> None"
  shows "\<exists>events.
     sorted_events module_init fromisoformat raw = Inr events \<and>
     sorted (map (\<lambda>e. dt_key (snd e)) events) \<and>
     mset events = mset (map (\<lambda>ev. (the (label ev), the (fromisoformat (rstrip_Z (created_at ev)))))
                          (filter recognised_label raw)) \<and>
     find_issue_dates_changes module_init fromisoformat (i\<lparr>resourcelabelevents := raw\<rparr>)
         start_date end_date
       = find_issue_dates_changes module_init fromisoformat
           (i\<lparr>resourcelabelevents := filter recognised_label raw\<rparr>) start_date end_date"
proof -
  let ?kept = "map (\<lambda>ev. (the (label ev), the (fromisoformat (rstrip_Z (created_at ev)))))
                 (filter recognised_label raw)"
  have rel: "relevant module_init = recognised_label"
    by (rule ext) (rule relevant_module_init)
  from assms have "relevant_events module_init fromisoformat raw = Inr ?kept"
    using relevant_events_parsed [of raw module_init fromisoformat] by (simp add: rel)
  then have res: "sorted_events module_init fromisoformat raw
      = Inr (sort_key (\<lambda>e. dt_key (snd e)) ?kept)"
    by (simp add: sorted_events_def)
  have srt: "sorted (map (\<lambda>e. dt_key (snd e)) (sort_key (\<lambda>e. dt_key (snd e)) ?kept))"
    by (rule sorted_sort_key)
  have same: "sorted_events module_init fromisoformat (filter recognised_label raw)
      = sorted_events module_init fromisoformat raw"
    using relevant_events_filter [of module_init fromisoformat raw]
    by (simp add: sorted_events_def rel)
  have "find_issue_dates_changes module_init fromisoformat (i\<lparr>resourcelabelevents := raw\<rparr>)
         start_date end_date
       = find_issue_dates_changes module_init fromisoformat
           (i\<lparr>resourcelabelevents := filter recognised_label raw\<rparr>) start_date end_date"
    by (simp add: find_issue_dates_changes_def same)
  with res srt show ?thesis by simp
qed

theorem sorted_events_normalizes_witness:
  "filter recognised_label (resourcelabelevents example_issue_moved)
     = [\<lparr>label = Some ''status::Review'', created_at = ''2024-01-08T15:30:00.000Z''\<rparr>,
        \<lparr>label = Some ''status::Doing'', created_at = ''2024-01-05T09:00:00.000Z''\<rparr>] \<and>
   sorted_events module_init example_fromisoformat (resourcelabelevents example_issue_moved)
     = Inr [(''status::Doing'', datetime_of 2024 1 5 9 0 0 0),
            (''status::Review'', datetime_of 2024 1 8 15 30 0 0)] \<and>
   (\<exists>events.
     sorted_events module_init example_fromisoformat (resourcelabelevents example_issue_moved)
       = Inr events \<and>
     sorted (map (\<lambda>e. dt_key (snd e)) events) \<and>
     mset events = mset (map (\<lambda>ev. (the (label ev),
                                   the (example_fromisoformat (rstrip_Z (created_at ev)))))
                          (filter recognised_label (resourcelabelevents example_issue_moved))) \<and>
     find_issue_dates_changes module_init example_fromisoformat
         (example_issue_idle\<lparr>resourcelabelevents := resourcelabelevents example_issue_moved\<rparr>)
         example_start_date example_end_date
       = find_issue_dates_changes module_init example_fromisoformat
           (example_issue_idle\<lparr>resourcelabelevents :=
              filter recognised_label (resourcelabelevents example_issue_moved)\<rparr>)
           example_start_date example_end_date)"
proof -
  have parsed: "\<forall>ev \<in> set (resourcelabelevents example_issue_moved).
      recognised_label ev \<longrightarrow> example_fromisoformat (rstrip_Z (created_at ev)) \<noteq> None"
    by code_simp
  have kept: "filter recognised_label (resourcelabelevents example_issue_moved)
     = [\<lparr>label = Some ''status::Review'', created_at = ''2024-01-08T15:30:00.000Z''\<rparr>,
        \<lparr>label = Some ''status::Doing'', created_at = ''2024-01-05T09:00:00.000Z''\<rparr>]"
    by code_simp
  have res: "sorted_events module_init example_fromisoformat
       (resourcelabelevents example_issue_moved)
     = Inr [(''status::Doing'', datetime_of 2024 1 5 9 0 0 0),
            (''status::Review'', datetime_of 2024 1 8 15 30 0 0)]"
    by code_simp
  from sorted_events_normalizes [OF parsed] kept res show ?thesis
    by blast
qed

section \<open>Width of the table\<close>

lemma length_transition_cells: "length (transition_cells r) = 3"
  by (cases r) (simp add: transition_cells_def)

lemma length_issue_values:
  "length (concat (map transition_cells date_changes)) = 3 * length date_changes"
  by (induction date_changes) (simp_all add: length_transition_cells)

lemma length_find_issue_dates_changes:
  "find_issue_dates_changes g fromisoformat i start_date end_date = Inr date_changes \<Longrightarrow>
   length date_changes = length (LABEL_TRANSITIONS g)"
  by (auto simp: find_issue_dates_changes_def split: sum.splits)

lemma length_issue_row:
  "issue_row g fromisoformat i start_date end_date = Inr (Some row) \<Longrightarrow>
   length row = 1 + 3 * length (LABEL_TRANSITIONS g)"
  by (auto simp: issue_row_def Let_def length_issue_values
      dest: length_find_issue_dates_changes split: sum.splits if_splits)

lemma length_issues_rows:
  "issues_rows g fromisoformat todo start_date end_date = Inr table \<Longrightarrow>
   \<forall>row \<in> set table. length row = 1 + 3 * length (LABEL_TRANSITIONS g)"
proof (induction todo arbitrary: table)
  case Nil
  then show ?case by simp
next
  case (Cons i rest)
  from Cons.prems obtain row others where
    row: "issue_row g fromisoformat i start_date end_date = Inr row" and
    others: "issues_rows g fromisoformat rest start_date end_date = Inr others" and
    table: "table = (case row of None \<Rightarrow> others | Some issue_values \<Rightarrow> issue_values # others)"
    by (auto split: sum.splits)
  from Cons.IH [OF others] table length_issue_row [of g fromisoformat i start_date end_date] row
  show ?case
    by (cases row) auto
qed

lemma length_projects_rows:
  "projects_rows g fromisoformat todo start_date end_date = Inr table \<Longrightarrow>
   \<forall>row \<in> set table. length row = 2 + 3 * length (LABEL_TRANSITIONS g)"
proof (induction todo arbitrary: table)
  case Nil
  then show ?case by simp
next
  case (Cons p rest)
  from Cons.prems obtain project_values others where
    pv: "find_project_date_changes g fromisoformat p start_date end_date = Inr project_values" and
    others: "projects_rows g fromisoformat rest start_date end_date = Inr others" and
    table: "table = map (\<lambda>v. CellStr (name p) # v) project_values @ others"
    by (auto split: sum.splits)
  from pv have "\<forall>row \<in> set project_values. length row = 1 + 3 * length (LABEL_TRANSITIONS g)"
    unfolding find_project_date_changes_def by (rule length_issues_rows)
  with Cons.IH [OF others] table show ?case
    by auto
qed

lemma length_header_cells:
  "header_cells labels transitions = Inr cells \<Longrightarrow> length cells = 3 * length transitions"
  by (induction labels transitions arbitrary: cells rule: header_cells.induct)
     (auto split: option.splits sum.splits)

lemma length_report_header:
  "report_header g = Inr header \<Longrightarrow> length header = 2 + 3 * length (LABEL_TRANSITIONS g)"
  by (auto simp: report_header_def dest: length_header_cells split: sum.splits)

text \<open>
  Claim C10. The table handed to the sheet writer starts with the header, and the header
  and every row after it have exactly 17 cells: the project name, the issue number, and
  three cells for each of the five transitions.
\<close>

theorem report_values_width:
  "report_values module_init fromisoformat projects start_date end_date = Inr table \<Longrightarrow>
   table \<noteq> [] \<and> (\<forall>row \<in> set table. length row = 17)"
proof -
  assume a: "report_values module_init fromisoformat projects start_date end_date = Inr table"
  have n: "length (LABEL_TRANSITIONS module_init) = 5"
    by (simp add: module_init_def)
  from a obtain header rows where
    h: "report_header module_init = Inr header" and
    r: "projects_rows module_init fromisoformat projects start_date end_date = Inr rows" and
    t: "table = header # rows"
    by (auto simp: report_values_def split: sum.splits)
  from length_report_header [OF h] length_projects_rows [OF r] n t show ?thesis
    by simp
qed

theorem report_values_width_witness:
  "report_values module_init example_fromisoformat [example_project]
       example_start_date example_end_date
     = Inr [[CellStr ''Project'', CellStr ''Issue #'',
             CellStr ''Doing'', CellStr ''Review'', CellStr ''Nb. days'',
             CellStr ''Review'', CellStr ''QA'', CellStr ''Nb. days'',
             CellStr ''QA'', CellStr ''Waiting for Prod'', CellStr ''Nb. days'',
             CellStr ''Waiting for Prod'', CellStr ''Released'', CellStr ''Nb. days'',
             CellStr ''Doing'', CellStr ''Released'', CellStr ''Nb. days''],
            [CellStr ''exporter'', CellInt 12,
             CellStr ''01/05/2024 09:00:00'', CellStr ''01/08/2024 15:30:00'', CellFloat (157 / 48),
             CellStr [], CellStr [], CellStr [], CellStr [], CellStr [], CellStr [],
             CellStr [], CellStr [], CellStr [], CellStr [], CellStr [], CellStr []]] \<and>
   list_all (\<lambda>row. length row = 17)
        [[CellStr ''Project'', CellStr ''Issue #'',
          CellStr ''Doing'', CellStr ''Review'', CellStr ''Nb. days'',
          CellStr ''Review'', CellStr ''QA'', CellStr ''Nb. days'',
          CellStr ''QA'', CellStr ''Waiting for Prod'', CellStr ''Nb. days'',
          CellStr ''Waiting for Prod'', CellStr ''Released'', CellStr ''Nb. days'',
          CellStr ''Doing'', CellStr ''Released'', CellStr ''Nb. days''],
         [CellStr ''exporter'', CellInt 12,
          CellStr ''01/05/2024 09:00:00'', CellStr ''01/08/2024 15:30:00'', CellFloat (157 / 48),
          CellStr [], CellStr [], CellStr [], CellStr [], CellStr [], CellStr [],
          CellStr [], CellStr [], CellStr [], CellStr [], CellStr [], CellStr []]]"
proof -
  have res: "report_values module_init example_fromisoformat [example_project]
       example_start_date example_end_date
     = Inr [[CellStr ''Project'', CellStr ''Issue #'',
             CellStr ''Doing'', CellStr ''Review'', CellStr ''Nb. days'',
             CellStr ''Review'', CellStr ''QA'', CellStr ''Nb. days'',
             CellStr ''QA'', CellStr ''Waiting for Prod'', CellStr ''Nb. days'',
             CellStr ''Waiting for Prod'', CellStr ''Released'', CellStr ''Nb. days'',
             CellStr ''Doing'', CellStr ''Released'', CellStr ''Nb. days''],
            [CellStr ''exporter'', CellInt 12,
             CellStr ''01/05/2024 09:00:00'', CellStr ''01/08/2024 15:30:00'', CellFloat (157 / 48),
             CellStr [], CellStr [], CellStr [], CellStr [], CellStr [], CellStr [],
             CellStr [], CellStr [], CellStr [], CellStr [], CellStr [], CellStr []]]"
    by code_simp
  from report_values_width [OF res] res show ?thesis
    unfolding list_all_iff by blast
qed

section \<open>Repeated runs\<close>



section \<open>The range written to the sheet\<close>

text \<open>
  Claim C7. The letter of the end cell is read from the alphabet at index \<open>nb_cols\<close>,
  counted from 0, so it is the letter of column \<open>nb_cols + 1\<close>: a table of one row and
  one column is written to \<open>A1:B1\<close>, two columns wide, the report's table of 17 columns
  and two rows to \<open>A1:R2\<close>, 18 columns wide, and a table of 26 columns raises
  \<^verbatim>\<open>IndexError\<close>, although the comment in the source expects trouble only above 26
  columns.
\<close>

theorem write_to_gsheet_range_one_column_too_wide:
  "write_to_gsheet [[CellStr ''Project'']] = Inr (''A1:B1'', [[CellStr ''Project'']]) \<and>
   write_to_gsheet [replicate 26 (CellStr ''x'')] = Inl IndexError \<and>
   map_sum id fst (generate_label_report module_init example_fromisoformat [example_project]
       example_start_date example_end_date) = Inr ''A1:R2''"
  by code_simp

section \<open>Defaults of the reporting window\<close>

text \<open>
  Claim C8 as stated (start date defaulting to today, end date to 30 days before) does
  not hold: on 2024-01-01, day 738886, the start date defaults to day 738856.
\<close>

theorem option_defaults_counterexample:
  "\<not> (start_date_default 738886 = 738886 \<and> end_date_default 738886 = 738886 - 30)"
  by (simp add: start_date_default_def end_date_default_def)

text \<open>
  Claim C8, amended. \<^verbatim>\<open>--start-date\<close> defaults to the date 30 days before today and
  \<^verbatim>\<open>--end-date\<close> to today's date, so the default window is the 30 days up to today,
  today excluded.
\<close>

theorem option_defaults:
  "start_date_default today = today - 30 \<and> end_date_default today = today \<and>
   start_date_default today < end_date_default today"
  by (simp add: start_date_default_def end_date_default_def)

end
